theory Spec2Isabelle
  imports Main
begin

section \<open>JavaScript values\<close>

text \<open>
  The values that flow through \<^verbatim>\<open>InputHandler.js\<close>: \<^verbatim>\<open>undefined\<close>, \<^verbatim>\<open>null\<close>,
  booleans, numbers, strings and instances of the \<^verbatim>\<open>Color\<close> class (an object reference).
  Strict equality \<^verbatim>\<open>===\<close> is HOL equality on this type: primitives compare by value,
  \<^verbatim>\<open>Color\<close> instances by reference, values of different types are never equal.

  The numbers are the safe integers, of magnitude below \<open>2\<^sup>5\<^sup>3\<close>: each of them is a
  JavaScript number, and its string conversion is its plain decimal numeral.
\<close>

typedef safe_int = "{n :: int. \<bar>n\<bar> < 2 ^ 53}"
  by (rule exI [of _ 0]) simp

setup_lifting type_definition_safe_int

instantiation safe_int :: zero
begin

lift_definition zero_safe_int :: safe_int is 0
  by simp

instance ..

end

datatype jsval =
    JUndefined
  | JNull
  | JBool bool
  | JNum safe_int
  | JStr string
  | JColor nat

text \<open>JavaScript truthiness, as used by \<^verbatim>\<open>x ? a : b\<close>, \<^verbatim>\<open>!x\<close> and \<^verbatim>\<open>x && y\<close>.\<close>

fun truthy :: "jsval \<Rightarrow> bool" where
  "truthy JUndefined = False"
| "truthy JNull = False"
| "truthy (JBool b) = b"
| "truthy (JNum n) = (n \<noteq> 0)"
| "truthy (JStr s) = (s \<noteq> [])"
| "truthy (JColor c) = True"

text \<open>Decimal digits of a natural number, for the string conversion of a safe integer.\<close>

function string_of_nat :: "nat \<Rightarrow> string" where
  "string_of_nat n =
     (if n < 10 then [''0123456789'' ! n]
      else string_of_nat (n div 10) @ [''0123456789'' ! (n mod 10)])"
  by pat_completeness auto
termination
  by (relation "measure (\<lambda>n. n)") auto

definition string_of_int :: "int \<Rightarrow> string" where
  "string_of_int i = (if i < 0 then CHR ''-'' # string_of_nat (nat (- i)) else string_of_nat (nat i))"

definition string_of_number :: "safe_int \<Rightarrow> string" where
  "string_of_number n = string_of_int (Rep_safe_int n)"

section \<open>The DOM layer and the owning widget\<close>

text \<open>
  One DOM element as the handler sees it through jQuery: its tag name, its \<^verbatim>\<open>value\<close>
  property (a DOMString on a form control), its \<^verbatim>\<open>disabled\<close> property, what
  \<^verbatim>\<open>.data('color')\<close> and \<^verbatim>\<open>.attr('data-color')\<close> return for it, and the event
  subscriptions made on it (event type, namespace). A control does not store every string
  as it is assigned: a text input strips line breaks, a color input keeps only lowercase
  hexadecimal colors. \<^verbatim>\<open>value_sanitization\<close> is that algorithm of the control: the string
  its \<^verbatim>\<open>value\<close> property holds after a given string is assigned to it.
\<close>

record element =
  tagName :: string
  value_prop :: string
  disabled :: bool
  data_color :: jsval
  attr_data_color :: jsval
  listeners :: "(string \<times> string) list"
  value_sanitization :: "string \<Rightarrow> string"

text \<open>The value sanitization of a text input: line feeds and carriage returns are removed.\<close>

definition strip_line_breaks :: "string \<Rightarrow> string" where
  "strip_line_breaks s = filter (\<lambda>c. c \<noteq> CHR 0x0A \<and> c \<noteq> CHR 0x0D) s"

text \<open>
  An event object passed to a handler: an event of the browser (a key release, a committed
  change), identified by a reference, or the synthetic \<^verbatim>\<open>change\<close> event that \<^verbatim>\<open>setValue\<close>
  builds, with its \<^verbatim>\<open>color\<close> and \<^verbatim>\<open>value\<close> members.
\<close>

datatype event =
    DomEvent nat
  | ChangeEvent jsval jsval

text \<open>The widget's Last Interaction Record, \<^verbatim>\<open>colorpicker.lastEvent\<close>.\<close>

record lastEvent_rec =
  lastEvent_alias :: "string option"
  lastEvent_e :: "event option"

text \<open>
  The owning widget, \<^verbatim>\<open>this.colorpicker\<close>. A jQuery set is the list of its elements.
  The collaborators that are not part of \<^verbatim>\<open>InputHandler.js\<close> are taken as they are in the
  widget's current state: \<^verbatim>\<open>element.find(selector)\<close>, \<^verbatim>\<open>getSafeColorString()\<close>,
  \<^verbatim>\<open>resolveColor(val)\<close> (a string, by its contract), \<^verbatim>\<open>isInvalidColor()\<close> (a boolean),
  and \<^verbatim>\<open>toString(format)\<close> of a \<^verbatim>\<open>Color\<close> instance.
\<close>

record colorpicker =
  element :: "element list"
  element_find :: "jsval \<Rightarrow> element list"
  options_input :: jsval
  options_useHashPrefix :: jsval
  options_autoInputFallback :: jsval
  format :: jsval
  color :: jsval
  lastEvent :: lastEvent_rec
  getSafeColorString :: jsval
  resolveColor :: "jsval \<Rightarrow> string"
  isInvalidColor :: bool
  color_toString :: "nat \<Rightarrow> jsval \<Rightarrow> string"

text \<open>
  The calls the handler makes on its collaborators, in order: property writes on the
  field, event subscriptions, the synthetic \<^verbatim>\<open>change\<close> event (with its \<^verbatim>\<open>color\<close> and
  \<^verbatim>\<open>value\<close> payload) and the widget's own \<^verbatim>\<open>setValue\<close>.
\<close>

datatype effect =
    PropValue string
  | PropDisabled bool
  | On string string
  | Off string
  | Trigger jsval jsval
  | WidgetSetValue jsval

text \<open>
  The handler object: the widget, \<^verbatim>\<open>this.input\<close> (\<^verbatim>\<open>None\<close> is \<^verbatim>\<open>false\<close>, otherwise a
  jQuery set) and the trace of outward calls made so far. The \<^verbatim>\<open>root\<close> member is stored
  by the constructor and never read.
\<close>

record inputHandler =
  colorpicker :: colorpicker
  input :: "element list option"
  trace :: "effect list"

subsection \<open>jQuery accessors on a set of elements\<close>

text \<open>Getters read the first element of the set and give \<^verbatim>\<open>undefined\<close> on an empty set;
  setters act on every element. Assigning to \<^verbatim>\<open>value\<close> goes through the control's value
  sanitization.\<close>

definition jq_is_input :: "element list \<Rightarrow> bool" where
  "jq_is_input els = list_ex (\<lambda>x. tagName x = ''input'') els"

definition jq_val :: "element list \<Rightarrow> jsval" where
  "jq_val els = (case els of [] \<Rightarrow> JUndefined | x # _ \<Rightarrow> JStr (value_prop x))"

definition jq_prop_value :: "element list \<Rightarrow> jsval" where
  "jq_prop_value els = (case els of [] \<Rightarrow> JUndefined | x # _ \<Rightarrow> JStr (value_prop x))"

definition jq_prop_disabled :: "element list \<Rightarrow> jsval" where
  "jq_prop_disabled els = (case els of [] \<Rightarrow> JUndefined | x # _ \<Rightarrow> JBool (disabled x))"

definition jq_data_color :: "element list \<Rightarrow> jsval" where
  "jq_data_color els = (case els of [] \<Rightarrow> JUndefined | x # _ \<Rightarrow> data_color x)"

definition jq_attr_data_color :: "element list \<Rightarrow> jsval" where
  "jq_attr_data_color els = (case els of [] \<Rightarrow> JUndefined | x # _ \<Rightarrow> attr_data_color x)"

definition jq_set_value :: "string \<Rightarrow> element list \<Rightarrow> element list" where
  "jq_set_value s els = map (\<lambda>x. x\<lparr>value_prop := value_sanitization x s\<rparr>) els"

definition jq_set_disabled :: "bool \<Rightarrow> element list \<Rightarrow> element list" where
  "jq_set_disabled b els = map (\<lambda>x. x\<lparr>disabled := b\<rparr>) els"

definition jq_on :: "string \<Rightarrow> string \<Rightarrow> element list \<Rightarrow> element list" where
  "jq_on ty ns els = map (\<lambda>x. x\<lparr>listeners := listeners x @ [(ty, ns)]\<rparr>) els"

definition jq_off :: "string \<Rightarrow> element list \<Rightarrow> element list" where
  "jq_off ns els = map (\<lambda>x. x\<lparr>listeners := filter (\<lambda>l. snd l \<noteq> ns) (listeners x)\<rparr>) els"

text \<open>
  The string that reaches a form control when a value is assigned to its \<^verbatim>\<open>value\<close>
  property: a string as it is, \<^verbatim>\<open>null\<close> as the empty string, anything else through its
  string conversion.
\<close>

definition toDOMString :: "colorpicker \<Rightarrow> jsval \<Rightarrow> string" where
  "toDOMString cp v =
     (case v of
        JUndefined \<Rightarrow> ''undefined''
      | JNull \<Rightarrow> ''''
      | JBool b \<Rightarrow> (if b then ''true'' else ''false'')
      | JNum n \<Rightarrow> string_of_number n
      | JStr s \<Rightarrow> s
      | JColor c \<Rightarrow> color_toString cp c JUndefined)"

section \<open>The input handler\<close>

text \<open>
  Each method of the class is a function on the handler object; a method that mutates the
  field, the widget or calls out returns the updated object. No method of the class has a
  \<^verbatim>\<open>throw\<close> or dereferences \<^verbatim>\<open>this.input\<close> before testing \<^verbatim>\<open>hasInput()\<close>, except the
  two event handlers, which reach the field only through \<^verbatim>\<open>getValue()\<close>; so there is no
  error result, and every function below is total.
\<close>

definition hasInput :: "inputHandler \<Rightarrow> bool" where
  "hasInput h = (input h \<noteq> None)"

text \<open>
  \<^verbatim>\<open>val.replace(/^#/g, '')\<close>: the global replacement scans the string from left to
  right; the pattern \<^verbatim>\<open>^#\<close> matches at a position when that position is the start of
  the string (there is no multiline flag) and the character there is \<^verbatim>\<open>#\<close>. A match is
  replaced by the empty string and the scan goes on after it.
\<close>

fun replace_hash_from :: "nat \<Rightarrow> string \<Rightarrow> string" where
  "replace_hash_from pos [] = []"
| "replace_hash_from pos (c # cs) =
     (if pos = 0 \<and> c = CHR ''#'' then replace_hash_from (Suc pos) cs
      else c # replace_hash_from (Suc pos) cs)"

definition replace_leading_hash :: "string \<Rightarrow> string" where
  "replace_leading_hash s = replace_hash_from 0 s"

text \<open>\<^verbatim>\<open>getFormattedColor(val = null)\<close>: the default applies to a missing argument.\<close>

definition getFormattedColor :: "inputHandler \<Rightarrow> jsval \<Rightarrow> string" where
  "getFormattedColor h arg =
     (let val0 = (if arg = JUndefined then JNull else arg);
          val1 = (if truthy val0 then val0 else getSafeColorString (colorpicker h))
      in if \<not> truthy val1 then ''''
         else
           let val2 = resolveColor (colorpicker h) val1
           in if options_useHashPrefix (colorpicker h) = JBool False then replace_leading_hash val2
              else val2)"

text \<open>The loop of \<^verbatim>\<open>_initValue\<close> over the three candidates.\<close>

definition pick_candidate :: "jsval \<Rightarrow> jsval \<Rightarrow> jsval" where
  "pick_candidate val item = (if truthy item \<and> val = JStr '''' then item else val)"

definition initValue :: "inputHandler \<Rightarrow> inputHandler" where
  "initValue h =
     (case input h of
        None \<Rightarrow> h
      | Some els \<Rightarrow>
          let val = foldl pick_candidate (JStr '''')
                      [jq_val els, jq_data_color els, jq_attr_data_color els];
              val' = (case val of
                        JColor c \<Rightarrow>
                          getFormattedColor h
                            (JStr (color_toString (colorpicker h) c (format (colorpicker h))))
                      | JStr s \<Rightarrow> s
                      | _ \<Rightarrow> '''')
          in h\<lparr>input := Some (jq_set_value val' els), trace := trace h @ [PropValue val']\<rparr>)"

text \<open>The constructor: resolve \<^verbatim>\<open>this.input\<close>, then seed the field.\<close>

definition resolve_input :: "colorpicker \<Rightarrow> element list option" where
  "resolve_input cp =
     (let inp = (if jq_is_input (element cp) then Some (element cp)
                 else if truthy (options_input cp) then Some (element_find cp (options_input cp))
                 else None)
      in case inp of
           None \<Rightarrow> None
         | Some els \<Rightarrow> if length els = 0 then None else Some els)"

definition new_InputHandler :: "colorpicker \<Rightarrow> inputHandler" where
  "new_InputHandler cp = initValue \<lparr>colorpicker = cp, input = resolve_input cp, trace = []\<rparr>"

definition bind :: "inputHandler \<Rightarrow> inputHandler" where
  "bind h =
     (case input h of
        None \<Rightarrow> h
      | Some els \<Rightarrow>
          h\<lparr>input := Some (jq_on ''change'' ''colorpicker'' (jq_on ''keyup'' ''colorpicker'' els)),
            trace := trace h @ [On ''keyup'' ''colorpicker'', On ''change'' ''colorpicker'']\<rparr>)"

definition unbind :: "inputHandler \<Rightarrow> inputHandler" where
  "unbind h =
     (case input h of
        None \<Rightarrow> h
      | Some els \<Rightarrow>
          h\<lparr>input := Some (jq_off ''colorpicker'' els), trace := trace h @ [Off ''colorpicker'']\<rparr>)"

definition getValue :: "inputHandler \<Rightarrow> jsval" where
  "getValue h = (case input h of None \<Rightarrow> JBool False | Some els \<Rightarrow> jq_val els)"

text \<open>
  The two user-origin handlers. They come before \<^verbatim>\<open>setValue\<close> here because the event that
  \<^verbatim>\<open>setValue\<close> triggers on the field is delivered to the \<^verbatim>\<open>onchange\<close> that \<^verbatim>\<open>bind\<close>
  subscribed.
\<close>

definition record_event :: "string \<Rightarrow> event \<Rightarrow> inputHandler \<Rightarrow> inputHandler" where
  "record_event a ev h =
     h\<lparr>colorpicker :=
         (colorpicker h)\<lparr>lastEvent := (lastEvent (colorpicker h))\<lparr>lastEvent_alias := Some a, lastEvent_e := Some ev\<rparr>\<rparr>\<rparr>"

definition onchange :: "inputHandler \<Rightarrow> event \<Rightarrow> inputHandler" where
  "onchange h ev =
     (let h1 = record_event ''input.change'' ev h;
          val = getValue h1
      in if val \<noteq> JStr (getFormattedColor h1 JUndefined)
         then h1\<lparr>trace := trace h1 @ [WidgetSetValue val]\<rparr>
         else h1)"

definition onkeyup :: "inputHandler \<Rightarrow> event \<Rightarrow> inputHandler" where
  "onkeyup h ev =
     (let h1 = record_event ''input.keyup'' ev h;
          val = getValue h1
      in if val \<noteq> JStr (getFormattedColor h1 JUndefined)
         then h1\<lparr>trace := trace h1 @ [WidgetSetValue val]\<rparr>
         else h1)"

text \<open>
  \<^verbatim>\<open>this.input.trigger({type: 'change', ...})\<close>: the event is dispatched on every element
  of the set, in order, and on each element it runs the handlers subscribed there for
  \<^verbatim>\<open>change\<close>. The subscriptions \<^verbatim>\<open>change.colorpicker\<close> are those made by \<^verbatim>\<open>bind\<close>, whose
  handler is \<^verbatim>\<open>onchange\<close>; handlers of other code are not part of this class.
\<close>

definition change_subscriptions :: "element list \<Rightarrow> (string \<times> string) list" where
  "change_subscriptions els =
     concat (map (\<lambda>x. filter (\<lambda>l. l = (''change'', ''colorpicker'')) (listeners x)) els)"

definition jq_trigger_change :: "inputHandler \<Rightarrow> jsval \<Rightarrow> jsval \<Rightarrow> inputHandler" where
  "jq_trigger_change h c v =
     (case input h of
        None \<Rightarrow> h
      | Some els \<Rightarrow>
          foldl (\<lambda>h' l. onchange h' (ChangeEvent c v))
            (h\<lparr>trace := trace h @ [Trigger c v]\<rparr>)
            (change_subscriptions els))"

definition setValue :: "inputHandler \<Rightarrow> jsval \<Rightarrow> inputHandler" where
  "setValue h arg =
     (case input h of
        None \<Rightarrow> h
      | Some els \<Rightarrow>
          let inputVal = jq_prop_value els;
              val = (if truthy arg then arg else JStr '''')
          in if val = (if truthy inputVal then inputVal else JStr '''') then h
             else jq_trigger_change
                    (h\<lparr>input := Some (jq_set_value (toDOMString (colorpicker h) val) els),
                       trace := trace h @ [PropValue (toDOMString (colorpicker h) val)]\<rparr>)
                    (color (colorpicker h)) val)"

definition isDisabled :: "inputHandler \<Rightarrow> bool" where
  "isDisabled h =
     (case input h of None \<Rightarrow> False | Some els \<Rightarrow> jq_prop_disabled els = JBool True)"

definition disable :: "inputHandler \<Rightarrow> inputHandler" where
  "disable h =
     (case input h of
        None \<Rightarrow> h
      | Some els \<Rightarrow>
          h\<lparr>input := Some (jq_set_disabled True els), trace := trace h @ [PropDisabled True]\<rparr>)"

definition enable :: "inputHandler \<Rightarrow> inputHandler" where
  "enable h =
     (case input h of
        None \<Rightarrow> h
      | Some els \<Rightarrow>
          h\<lparr>input := Some (jq_set_disabled False els), trace := trace h @ [PropDisabled False]\<rparr>)"

definition update :: "inputHandler \<Rightarrow> inputHandler" where
  "update h =
     (case input h of
        None \<Rightarrow> h
      | Some els \<Rightarrow>
          let preventsUpdate =
                (options_autoInputFallback (colorpicker h) \<noteq> JBool True
                 \<and> (isInvalidColor (colorpicker h)
                    \<or> lastEvent_alias (lastEvent (colorpicker h)) = Some ''input.keyup''))
          in if preventsUpdate then h
             else setValue h (JStr (getFormattedColor h JUndefined)))"

section \<open>Notions used by the properties\<close>

text \<open>
  The normalization that \<^verbatim>\<open>setValue\<close> applies to both sides of its comparison, in the
  words of the specification: a falsy value (\<^verbatim>\<open>null\<close>, \<^verbatim>\<open>undefined\<close>, \<^verbatim>\<open>false\<close>,
  \<^verbatim>\<open>0\<close>, the empty string) is replaced by the empty string.
\<close>

definition normalized :: "jsval \<Rightarrow> jsval" where
  "normalized v = (if truthy v then v else JStr '''')"

text \<open>The field's current value as \<^verbatim>\<open>setValue\<close> reads it; \<^verbatim>\<open>undefined\<close> without a field.\<close>

definition current_value :: "inputHandler \<Rightarrow> jsval" where
  "current_value h = (case input h of None \<Rightarrow> JUndefined | Some els \<Rightarrow> jq_prop_value els)"

text \<open>
  The number of writes of the field's \<^verbatim>\<open>value\<close> property, and of \<^verbatim>\<open>change\<close> events
  triggered on the field, in a trace.
\<close>

definition value_writes :: "effect list \<Rightarrow> nat" where
  "value_writes tr = length (filter (\<lambda>e. case e of PropValue s \<Rightarrow> True | _ \<Rightarrow> False) tr)"

definition change_events :: "effect list \<Rightarrow> nat" where
  "change_events tr = length (filter (\<lambda>e. case e of Trigger c v \<Rightarrow> True | _ \<Rightarrow> False) tr)"

text \<open>
  The Bound Field stores the string \<open>s\<close> as it is assigned: the value sanitization of the
  control (of the first element of the bound set, the one that is read back) leaves \<open>s\<close>
  unchanged. It holds of every string without line breaks on a text input.
\<close>

definition field_stores :: "inputHandler \<Rightarrow> string \<Rightarrow> bool" where
  "field_stores h s =
     (case input h of
        None \<Rightarrow> True
      | Some els \<Rightarrow> (case els of [] \<Rightarrow> True | x # xs \<Rightarrow> value_sanitization x s = s))"

text \<open>
  The state after the \<^verbatim>\<open>change\<close> event \<open>ev\<close> has been delivered to \<open>n\<close> subscriptions of
  \<^verbatim>\<open>onchange\<close>, in the words of the specification of the handler: with no subscription
  nothing happens; otherwise the Last Interaction Record holds \<^verbatim>\<open>"input.change"\<close> and the
  event, and each delivery has called the widget's \<^verbatim>\<open>setValue\<close> with the field's text if
  that text differs from the formatted color.
\<close>

definition after_change_deliveries :: "nat \<Rightarrow> event \<Rightarrow> inputHandler \<Rightarrow> inputHandler" where
  "after_change_deliveries n ev h =
     (if n = 0 then h
      else h\<lparr>colorpicker :=
               (colorpicker h)\<lparr>lastEvent :=
                  \<lparr>lastEvent_alias = Some ''input.change'', lastEvent_e = Some ev\<rparr>\<rparr>,
             trace :=
               trace h @ (if getValue h \<noteq> JStr (getFormattedColor h JUndefined)
                          then replicate n (WidgetSetValue (getValue h)) else [])\<rparr>)"

text \<open>
  The value that \<^verbatim>\<open>getFormattedColor\<close> resolves: its argument when that is truthy, the
  widget's safe color string otherwise.
\<close>

definition color_source :: "inputHandler \<Rightarrow> jsval \<Rightarrow> jsval" where
  "color_source h v = (if truthy v then v else getSafeColorString (colorpicker h))"

text \<open>
  The suppression condition of \<^verbatim>\<open>update\<close>, in the words of the specification: the
  auto-fallback option is not enabled, and the widget holds an invalid color or the last
  interaction is a key release.
\<close>

definition suppressed :: "colorpicker \<Rightarrow> bool" where
  "suppressed cp =
     (options_autoInputFallback cp \<noteq> JBool True
      \<and> (isInvalidColor cp \<or> lastEvent_alias (lastEvent cp) = Some ''input.keyup''))"

text \<open>
  The seed of the Displayed Value, in the words of the specification: the first non-empty
  candidate wins; a \<^verbatim>\<open>Color\<close> instance is rendered through the formatting helper, a
  string is kept, anything else gives the empty string.
\<close>

definition seed_of :: "inputHandler \<Rightarrow> jsval list \<Rightarrow> string" where
  "seed_of h candidates =
     (case find truthy candidates of
        None \<Rightarrow> ''''
      | Some (JColor c) \<Rightarrow>
          getFormattedColor h (JStr (color_toString (colorpicker h) c (format (colorpicker h))))
      | Some (JStr s) \<Rightarrow> s
      | Some _ \<Rightarrow> '''')"

section \<open>Sample widgets\<close>

text \<open>
  A text input with no value and a \<^verbatim>\<open>data-color\<close> attribute, and a widget built on it
  whose current color is blue. The sample color model resolves a string to itself.
\<close>

definition sample_field :: element where
  "sample_field =
     \<lparr>tagName = ''input'', value_prop = '''', disabled = False, data_color = JStr ''#123456'',
      attr_data_color = JStr ''#123456'', listeners = [],
      value_sanitization = strip_line_breaks\<rparr>"

definition sample_resolve :: "jsval \<Rightarrow> string" where
  "sample_resolve v = (case v of JStr s \<Rightarrow> s | _ \<Rightarrow> '''')"

definition sample_widget :: colorpicker where
  "sample_widget =
     \<lparr>element = [sample_field], element_find = (\<lambda>sel. []), options_input = JUndefined,
      options_useHashPrefix = JBool True, options_autoInputFallback = JBool False,
      format = JNull, color = JColor 0,
      lastEvent = \<lparr>lastEvent_alias = None, lastEvent_e = None\<rparr>,
      getSafeColorString = JStr ''#0000ff'', resolveColor = sample_resolve,
      isInvalidColor = False, color_toString = (\<lambda>c fmt. ''#0000ff'')\<rparr>"

text \<open>The same widget on a \<^verbatim>\<open>div\<close> in which the selector finds nothing: there is no
  Bound Field.\<close>

definition sample_widget_no_field :: colorpicker where
  "sample_widget_no_field =
     sample_widget\<lparr>element := [sample_field\<lparr>tagName := ''div''\<rparr>], options_input := JStr ''input''\<rparr>"

definition sample_handler :: inputHandler where
  "sample_handler = new_InputHandler sample_widget"

definition sample_handler_no_field :: inputHandler where
  "sample_handler_no_field = new_InputHandler sample_widget_no_field"

text \<open>The sample widget with the hash prefix switched off.\<close>

definition sample_widget_no_hash :: colorpicker where
  "sample_widget_no_hash = sample_widget\<lparr>options_useHashPrefix := JBool False\<rparr>"

definition sample_handler_no_hash :: inputHandler where
  "sample_handler_no_hash = new_InputHandler sample_widget_no_hash"

text \<open>A handler on the sample widget with a given value of \<^verbatim>\<open>useHashPrefix\<close>.\<close>

definition sample_handler_with_useHashPrefix :: "jsval \<Rightarrow> inputHandler" where
  "sample_handler_with_useHashPrefix opt =
     \<lparr>colorpicker = sample_widget\<lparr>options_useHashPrefix := opt\<rparr>, input = None, trace = []\<rparr>"

text \<open>The sample widget on a field that already shows the widget's color.\<close>

definition sample_widget_current :: colorpicker where
  "sample_widget_current = sample_widget\<lparr>element := [sample_field\<lparr>value_prop := ''#0000ff''\<rparr>]\<rparr>"

definition sample_handler_current :: inputHandler where
  "sample_handler_current = new_InputHandler sample_widget_current"

text \<open>A string with a line feed between two letters.\<close>

definition two_lines :: string where
  "two_lines = [CHR ''a'', CHR 0x0A, CHR ''b'']"

section \<open>Auxiliary facts\<close>

lemmas jq_defs =
  jq_is_input_def jq_val_def jq_prop_value_def jq_prop_disabled_def jq_data_color_def
  jq_attr_data_color_def jq_set_value_def jq_set_disabled_def jq_on_def jq_off_def

lemmas sample_defs =
  sample_field_def sample_resolve_def sample_widget_def sample_widget_no_field_def
  sample_widget_no_hash_def sample_handler_def sample_handler_no_field_def
  sample_handler_no_hash_def sample_widget_current_def sample_handler_current_def

lemma replace_hash_from_Suc: "replace_hash_from (Suc n) s = s"
  by (induction s arbitrary: n) auto

lemma replace_leading_hash_Nil: "replace_leading_hash [] = []"
  by (simp add: replace_leading_hash_def)

lemma replace_leading_hash_Cons:
  "replace_leading_hash (c # cs) = (if c = CHR ''#'' then cs else c # cs)"
  by (simp add: replace_leading_hash_def replace_hash_from_Suc)

lemma foldl_pick_candidate_kept:
  "v \<noteq> JStr '''' \<Longrightarrow> foldl pick_candidate v xs = v"
  by (induction xs) (simp_all add: pick_candidate_def)

lemma foldl_pick_candidate:
  "foldl pick_candidate (JStr '''') xs =
     (case find truthy xs of None \<Rightarrow> JStr '''' | Some w \<Rightarrow> w)"
proof (induction xs)
  case Nil
  show ?case by simp
next
  case (Cons x xs)
  show ?case
  proof (cases "truthy x")
    case True
    then have "x \<noteq> JStr ''''" by auto
    then have "foldl pick_candidate x xs = x" by (rule foldl_pick_candidate_kept)
    moreover have "pick_candidate (JStr '''') x = x" using True by (simp add: pick_candidate_def)
    ultimately show ?thesis using True by simp
  next
    case False
    then have "pick_candidate (JStr '''') x = JStr ''''" by (simp add: pick_candidate_def)
    with False show ?thesis by (simp add: Cons.IH)
  qed
qed

lemma getFormattedColor_cong:
  "colorpicker h' = (colorpicker h)\<lparr>lastEvent := le\<rparr> \<Longrightarrow> getFormattedColor h' v = getFormattedColor h v"
  by (simp add: getFormattedColor_def Let_def)

lemma getFormattedColor_frame:
  "getFormattedColor (h\<lparr>input := i, trace := t\<rparr>) v = getFormattedColor h v"
  by (simp add: getFormattedColor_def Let_def)

lemma onchange_eq:
  "onchange h ev =
     h\<lparr>colorpicker :=
         (colorpicker h)\<lparr>lastEvent :=
            \<lparr>lastEvent_alias = Some ''input.change'', lastEvent_e = Some ev\<rparr>\<rparr>,
       trace :=
         trace h @ (if getValue h \<noteq> JStr (getFormattedColor h JUndefined)
                    then [WidgetSetValue (getValue h)] else [])\<rparr>"
proof -
  have g: "getValue (record_event ''input.change'' ev h) = getValue h"
    by (simp add: record_event_def getValue_def)
  have f: "getFormattedColor (record_event ''input.change'' ev h) JUndefined
      = getFormattedColor h JUndefined"
    by (rule getFormattedColor_cong) (simp add: record_event_def)
  show ?thesis
    by (simp add: onchange_def Let_def g f) (simp add: record_event_def)
qed

lemma change_deliveries:
  "foldl (\<lambda>h' l. onchange h' ev) h ls = after_change_deliveries (length ls) ev h"
proof (induction ls arbitrary: h)
  case Nil
  show ?case by (simp add: after_change_deliveries_def)
next
  case (Cons l ls)
  let ?h1 = "onchange h ev"
  have g: "getValue ?h1 = getValue h"
    by (simp add: onchange_eq getValue_def)
  have f: "getFormattedColor ?h1 JUndefined = getFormattedColor h JUndefined"
    by (rule getFormattedColor_cong) (simp add: onchange_eq)
  have "foldl (\<lambda>h' l. onchange h' ev) h (l # ls) = after_change_deliveries (length ls) ev ?h1"
    by (simp add: Cons.IH)
  also have "\<dots> = after_change_deliveries (Suc (length ls)) ev h"
    unfolding after_change_deliveries_def g f
    by (simp add: onchange_eq)
  finally show ?case by simp
qed

lemma change_subscriptions_set_value:
  "change_subscriptions (jq_set_value s els) = change_subscriptions els"
  by (induction els) (simp_all add: change_subscriptions_def jq_set_value_def)

lemma setValue_None: "input h = None \<Longrightarrow> setValue h v = h"
  by (simp add: setValue_def)

lemma setValue_Some:
  "input h = Some els \<Longrightarrow>
   setValue h v =
     (if normalized v = normalized (jq_prop_value els) then h
      else after_change_deliveries (length (change_subscriptions els))
             (ChangeEvent (color (colorpicker h)) (normalized v))
             (h\<lparr>input := Some (jq_set_value (toDOMString (colorpicker h) (normalized v)) els),
                trace := trace h @ [PropValue (toDOMString (colorpicker h) (normalized v)),
                                    Trigger (color (colorpicker h)) (normalized v)]\<rparr>))"
  by (simp add: setValue_def Let_def normalized_def jq_trigger_change_def change_deliveries
      change_subscriptions_set_value)

lemma after_change_deliveries_input: "input (after_change_deliveries n ev h) = input h"
  by (simp add: after_change_deliveries_def)

lemma value_writes_after_change_deliveries:
  "value_writes (trace (after_change_deliveries n ev h)) = value_writes (trace h)"
  by (simp add: after_change_deliveries_def value_writes_def)

lemma change_events_after_change_deliveries:
  "change_events (trace (after_change_deliveries n ev h)) = change_events (trace h)"
  by (simp add: after_change_deliveries_def change_events_def)

lemma jq_prop_value_set:
  "jq_prop_value (jq_set_value s (x # xs)) = JStr (value_sanitization x s)"
  by (simp add: jq_prop_value_def jq_set_value_def)

lemma resolve_input_nonempty: "resolve_input cp = Some els \<Longrightarrow> els \<noteq> []"
  by (auto simp: resolve_input_def Let_def split: if_splits)

lemma normalized_JStr: "normalized (JStr s) = JStr s"
  by (simp add: normalized_def)

lemma new_InputHandler_no_field:
  "resolve_input cp = None \<Longrightarrow> new_InputHandler cp = \<lparr>colorpicker = cp, input = None, trace = []\<rparr>"
  by (simp add: new_InputHandler_def initValue_def)

lemma sample_no_field_resolves_to_None: "resolve_input sample_widget_no_field = None"
  by (simp add: resolve_input_def sample_defs jq_defs)

lemma sample_handler_no_field_eq:
  "sample_handler_no_field = \<lparr>colorpicker = sample_widget_no_field, input = None, trace = []\<rparr>"
  by (simp add: sample_handler_no_field_def new_InputHandler_no_field
      sample_no_field_resolves_to_None)

lemma sample_resolves: "resolve_input sample_widget = Some [sample_field]"
  by (simp add: resolve_input_def sample_defs jq_defs)

lemma sample_handler_eq:
  "sample_handler =
     \<lparr>colorpicker = sample_widget, input = Some [sample_field\<lparr>value_prop := ''#123456''\<rparr>],
      trace = [PropValue ''#123456'']\<rparr>"
  by (simp add: sample_handler_def new_InputHandler_def initValue_def sample_resolves
      pick_candidate_def jq_defs Let_def)
    (simp add: sample_field_def strip_line_breaks_def)

lemma sample_handler_current_eq:
  "sample_handler_current =
     \<lparr>colorpicker = sample_widget_current,
      input = Some [sample_field\<lparr>value_prop := ''#0000ff''\<rparr>],
      trace = [PropValue ''#0000ff'']\<rparr>"
  by (simp add: sample_handler_current_def sample_widget_current_def new_InputHandler_def
      initValue_def resolve_input_def sample_widget_def pick_candidate_def jq_defs Let_def)
    (simp add: sample_field_def strip_line_breaks_def)

lemma seed_of_alt:
  "seed_of h cs =
     (case (case find truthy cs of None \<Rightarrow> JStr '''' | Some w \<Rightarrow> w) of
        JColor c \<Rightarrow>
          getFormattedColor h (JStr (color_toString (colorpicker h) c (format (colorpicker h))))
      | JStr s \<Rightarrow> s
      | _ \<Rightarrow> '''')"
  by (simp add: seed_of_def split: option.splits jsval.splits)

lemma initValue_Some:
  assumes "input h = Some els"
  shows "initValue h =
     h\<lparr>input := Some (jq_set_value
                 (seed_of h [jq_val els, jq_data_color els, jq_attr_data_color els]) els),
       trace := trace h @ [PropValue
                 (seed_of h [jq_val els, jq_data_color els, jq_attr_data_color els])]\<rparr>"
  unfolding seed_of_alt foldl_pick_candidate [symmetric]
  using assms by (simp add: initValue_def Let_def del: foldl_Cons foldl_Nil)

text \<open>The constructor never leaves an empty jQuery set in \<^verbatim>\<open>this.input\<close>.\<close>

lemma new_InputHandler_input_nonempty: "input (new_InputHandler cp) \<noteq> Some []"
proof (cases "resolve_input cp")
  case None
  then show ?thesis by (simp add: new_InputHandler_no_field)
next
  case (Some els)
  then have "els \<noteq> []" by (rule resolve_input_nonempty)
  with Some show ?thesis
    by (simp add: new_InputHandler_def initValue_Some jq_set_value_def)
qed

section \<open>The properties\<close>

text \<open>
  C1, as amended. A handler constructed with no resolvable Bound Field has no
  \<^verbatim>\<open>input\<close> and an empty trace, and on any handler without a field \<^verbatim>\<open>getValue\<close> returns
  \<^verbatim>\<open>false\<close>, \<^verbatim>\<open>isDisabled\<close> returns \<^verbatim>\<open>false\<close>, and \<^verbatim>\<open>setValue\<close>, \<^verbatim>\<open>update\<close>,
  \<^verbatim>\<open>disable\<close>, \<^verbatim>\<open>enable\<close>, \<^verbatim>\<open>bind\<close>, \<^verbatim>\<open>unbind\<close> and \<^verbatim>\<open>_initValue\<close> return the handler
  unchanged: no field write, no subscription, no event, no write to the Last Interaction
  Record. None of these has a failing branch. The two user-origin handlers are not part
  of this statement: \<^verbatim>\<open>bind\<close> subscribes them only when a field exists.
\<close>

theorem no_field_operations_do_nothing:
  "(resolve_input cp = None \<longrightarrow>
      new_InputHandler cp = \<lparr>colorpicker = cp, input = None, trace = []\<rparr>)
   \<and> (\<not> hasInput h \<longrightarrow>
      getValue h = JBool False \<and> \<not> isDisabled h \<and> setValue h v = h \<and> update h = h
      \<and> disable h = h \<and> enable h = h \<and> bind h = h \<and> unbind h = h \<and> initValue h = h)"
  by (simp add: new_InputHandler_no_field hasInput_def getValue_def isDisabled_def setValue_def
      update_def disable_def enable_def bind_def unbind_def initValue_def)

theorem no_field_operations_do_nothing_witness:
  "resolve_input sample_widget_no_field = None
   \<and> \<not> hasInput sample_handler_no_field
   \<and> getValue sample_handler_no_field = JBool False
   \<and> setValue sample_handler_no_field (JStr ''#00ff00'') = sample_handler_no_field
   \<and> update sample_handler_no_field = sample_handler_no_field
   \<and> bind sample_handler_no_field = sample_handler_no_field"
  using no_field_operations_do_nothing
    [of sample_widget_no_field sample_handler_no_field "JStr ''#00ff00''"]
  by (simp add: sample_no_field_resolves_to_None sample_handler_no_field_eq hasInput_def)

text \<open>
  C1 as stated fails for the user-origin handlers: on a handler without a field,
  \<^verbatim>\<open>onchange\<close> overwrites the Last Interaction Record and calls the widget's
  \<^verbatim>\<open>setValue\<close> with \<^verbatim>\<open>false\<close>.
\<close>

theorem handlers_without_field_counterexample:
  "\<not> hasInput sample_handler_no_field
   \<and> lastEvent_alias (lastEvent (colorpicker sample_handler_no_field)) = None
   \<and> lastEvent_alias (lastEvent (colorpicker (onchange sample_handler_no_field (DomEvent 7))))
       = Some ''input.change''
   \<and> trace (onchange sample_handler_no_field (DomEvent 7)) = [WidgetSetValue (JBool False)]
   \<and> onchange sample_handler_no_field (DomEvent 7) \<noteq> sample_handler_no_field"
proof -
  have a: "trace (onchange sample_handler_no_field (DomEvent 7)) = [WidgetSetValue (JBool False)]"
    by (simp add: sample_handler_no_field_eq onchange_def record_event_def getValue_def Let_def)
  have b: "trace sample_handler_no_field = []"
    by (simp add: sample_handler_no_field_eq)
  have c: "onchange sample_handler_no_field (DomEvent 7) \<noteq> sample_handler_no_field"
    using a b by auto
  have d: "lastEvent_alias (lastEvent (colorpicker (onchange sample_handler_no_field (DomEvent 7))))
       = Some ''input.change''"
    by (simp add: sample_handler_no_field_eq onchange_def record_event_def getValue_def Let_def)
  have e: "lastEvent_alias (lastEvent (colorpicker sample_handler_no_field)) = None"
    by (simp add: sample_handler_no_field_eq sample_widget_no_field_def sample_widget_def)
  have f: "\<not> hasInput sample_handler_no_field"
    by (simp add: sample_handler_no_field_eq hasInput_def)
  show ?thesis using a c d e f by simp
qed

text \<open>
  C2, as amended. If the normalization of \<open>v\<close> equals the normalization of the field's
  current value, \<^verbatim>\<open>setValue(v)\<close> changes nothing: no field write, no event. Otherwise, on
  a handler with a field, it makes exactly one write of the \<^verbatim>\<open>value\<close> property and
  triggers exactly one \<^verbatim>\<open>change\<close> event; that event is delivered to the \<^verbatim>\<open>onchange\<close>
  subscriptions made by \<^verbatim>\<open>bind\<close>, which record it in the Last Interaction Record and may
  call the widget's \<^verbatim>\<open>setValue\<close>, and write or trigger nothing. When \<open>v\<close> is a string or a
  falsy value and the field stores its normalization as assigned, a second \<^verbatim>\<open>setValue(v)\<close>
  right after the first changes nothing.
\<close>

theorem setValue_skips_unchanged_value:
  "(normalized v = normalized (current_value h) \<longrightarrow> setValue h v = h)
   \<and> (hasInput h \<and> normalized v \<noteq> normalized (current_value h) \<longrightarrow>
        value_writes (trace (setValue h v)) = value_writes (trace h) + 1
        \<and> change_events (trace (setValue h v)) = change_events (trace h) + 1
        \<and> input (setValue h v) =
            map_option (jq_set_value (toDOMString (colorpicker h) (normalized v))) (input h)
        \<and> (\<forall>els. input h = Some els \<longrightarrow>
             setValue h v =
               after_change_deliveries (length (change_subscriptions els))
                 (ChangeEvent (color (colorpicker h)) (normalized v))
                 (h\<lparr>input := Some (jq_set_value (toDOMString (colorpicker h) (normalized v)) els),
                    trace := trace h @ [PropValue (toDOMString (colorpicker h) (normalized v)),
                                        Trigger (color (colorpicker h)) (normalized v)]\<rparr>)))
   \<and> (input h \<noteq> Some [] \<and> (\<exists>s. normalized v = JStr s \<and> field_stores h s) \<longrightarrow>
        setValue (setValue h v) v = setValue h v)"
proof (rule conjI [OF impI conjI [OF impI impI]])
  assume "normalized v = normalized (current_value h)"
  then show "setValue h v = h"
    by (cases "input h") (simp_all add: setValue_None setValue_Some current_value_def)
next
  assume a: "hasInput h \<and> normalized v \<noteq> normalized (current_value h)"
  then obtain els where els: "input h = Some els" by (auto simp: hasInput_def)
  with a have ne: "normalized v \<noteq> normalized (jq_prop_value els)"
    by (simp add: current_value_def)
  let ?s = "toDOMString (colorpicker h) (normalized v)"
  let ?h1 = "h\<lparr>input := Some (jq_set_value ?s els),
      trace := trace h @ [PropValue ?s, Trigger (color (colorpicker h)) (normalized v)]\<rparr>"
  let ?n = "length (change_subscriptions els)"
  have eq: "setValue h v =
      after_change_deliveries ?n (ChangeEvent (color (colorpicker h)) (normalized v)) ?h1"
    using els ne by (simp add: setValue_Some)
  have w: "value_writes (trace (setValue h v)) = value_writes (trace h) + 1"
    unfolding eq value_writes_after_change_deliveries by (simp add: value_writes_def)
  have c: "change_events (trace (setValue h v)) = change_events (trace h) + 1"
    unfolding eq change_events_after_change_deliveries by (simp add: change_events_def)
  have i: "input (setValue h v) = map_option (jq_set_value ?s) (input h)"
    unfolding eq by (simp add: after_change_deliveries_input els)
  show "value_writes (trace (setValue h v)) = value_writes (trace h) + 1
        \<and> change_events (trace (setValue h v)) = change_events (trace h) + 1
        \<and> input (setValue h v) = map_option (jq_set_value ?s) (input h)
        \<and> (\<forall>els. input h = Some els \<longrightarrow>
             setValue h v =
               after_change_deliveries (length (change_subscriptions els))
                 (ChangeEvent (color (colorpicker h)) (normalized v))
                 (h\<lparr>input := Some (jq_set_value ?s els),
                    trace := trace h @ [PropValue ?s,
                                        Trigger (color (colorpicker h)) (normalized v)]\<rparr>))"
    using w c i eq els by simp
next
  assume a: "input h \<noteq> Some [] \<and> (\<exists>s. normalized v = JStr s \<and> field_stores h s)"
  then obtain s where s: "normalized v = JStr s" and st: "field_stores h s" by blast
  show "setValue (setValue h v) v = setValue h v"
  proof (cases "input h")
    case None
    then show ?thesis by (simp add: setValue_None)
  next
    case (Some els)
    with a obtain x xs where xs: "els = x # xs" by (cases els) auto
    have keep: "value_sanitization x s = s"
      using st Some xs by (simp add: field_stores_def)
    have dom: "toDOMString (colorpicker h) (JStr s) = s"
      by (simp add: toDOMString_def)
    show ?thesis
    proof (cases "normalized v = normalized (jq_prop_value els)")
      case True
      then have "setValue h v = h" using Some by (simp add: setValue_Some)
      then show ?thesis by simp
    next
      case False
      have inp: "input (setValue h v) = Some (jq_set_value s els)"
        using Some False by (simp add: setValue_Some after_change_deliveries_input s dom)
      have "normalized v = normalized (jq_prop_value (jq_set_value s els))"
        by (simp add: xs jq_prop_value_set keep s normalized_JStr)
      then show ?thesis
        by (simp add: setValue_Some [OF inp])
    qed
  qed
qed

theorem setValue_skips_unchanged_value_witness:
  "normalized JNull \<noteq> normalized (current_value sample_handler)
   \<and> hasInput sample_handler \<and> input sample_handler \<noteq> Some []
   \<and> normalized JNull = JStr '''' \<and> field_stores sample_handler ''''
   \<and> value_writes (trace sample_handler) = 1
   \<and> value_writes (trace (setValue sample_handler JNull)) = 2
   \<and> change_events (trace (setValue sample_handler JNull)) = 1
   \<and> setValue (setValue sample_handler JNull) JNull = setValue sample_handler JNull
   \<and> normalized (JStr ''#123456'') = normalized (current_value sample_handler)
   \<and> setValue sample_handler (JStr ''#123456'') = sample_handler
   \<and> hasInput (bind sample_handler)
   \<and> normalized (JStr ''#00ff00'') \<noteq> normalized (current_value (bind sample_handler))
   \<and> value_writes (trace (setValue (bind sample_handler) (JStr ''#00ff00''))) = 2
   \<and> change_events (trace (setValue (bind sample_handler) (JStr ''#00ff00''))) = 1
   \<and> trace (setValue (bind sample_handler) (JStr ''#00ff00'')) =
       [PropValue ''#123456'', On ''keyup'' ''colorpicker'', On ''change'' ''colorpicker'',
        PropValue ''#00ff00'', Trigger (JColor 0) (JStr ''#00ff00''),
        WidgetSetValue (JStr ''#00ff00'')]
   \<and> lastEvent (colorpicker (setValue (bind sample_handler) (JStr ''#00ff00''))) =
       \<lparr>lastEvent_alias = Some ''input.change'',
        lastEvent_e = Some (ChangeEvent (JColor 0) (JStr ''#00ff00''))\<rparr>"
proof -
  have n1: "normalized JNull \<noteq> normalized (current_value sample_handler)"
    by (simp add: sample_handler_eq normalized_def current_value_def jq_prop_value_def)
  have n2: "normalized (JStr ''#123456'') = normalized (current_value sample_handler)"
    by (simp add: sample_handler_eq normalized_def current_value_def jq_prop_value_def)
  have n3: "normalized (JStr ''#00ff00'') \<noteq> normalized (current_value (bind sample_handler))"
    by (simp add: sample_handler_eq bind_def normalized_def current_value_def jq_prop_value_def
        jq_on_def)
  have h1: "hasInput sample_handler" "input sample_handler \<noteq> Some []"
    by (simp_all add: sample_handler_eq hasInput_def)
  have h2: "hasInput (bind sample_handler)"
    by (simp add: sample_handler_eq bind_def hasInput_def)
  have f: "normalized JNull = JStr ''''" "field_stores sample_handler ''''"
    by (simp_all add: normalized_def sample_handler_eq field_stores_def sample_field_def
        strip_line_breaks_def)
  have w0: "value_writes (trace sample_handler) = 1"
    by (simp add: sample_handler_eq value_writes_def)
  have w1: "value_writes (trace (bind sample_handler)) = 1"
    by (simp add: sample_handler_eq bind_def value_writes_def)
  have c0: "change_events (trace sample_handler) = 0"
    by (simp add: sample_handler_eq change_events_def)
  have c1: "change_events (trace (bind sample_handler)) = 0"
    by (simp add: sample_handler_eq bind_def change_events_def)
  note a = setValue_skips_unchanged_value [of JNull sample_handler]
  note b = setValue_skips_unchanged_value [of "JStr ''#123456''" sample_handler]
  note c = setValue_skips_unchanged_value [of "JStr ''#00ff00''" "bind sample_handler"]
  have p1: "value_writes (trace (setValue sample_handler JNull)) = 2"
    and p2: "change_events (trace (setValue sample_handler JNull)) = 1"
    using a n1 h1 w0 c0 by simp_all
  have p3: "setValue (setValue sample_handler JNull) JNull = setValue sample_handler JNull"
    using a h1 f by blast
  have p4: "setValue sample_handler (JStr ''#123456'') = sample_handler"
    using b n2 by blast
  have p5: "value_writes (trace (setValue (bind sample_handler) (JStr ''#00ff00''))) = 2"
    and p6: "change_events (trace (setValue (bind sample_handler) (JStr ''#00ff00''))) = 1"
    using c n3 h2 w1 c1 by simp_all
  have ib: "input (bind sample_handler) =
      Some [sample_field\<lparr>value_prop := ''#123456'',
              listeners := [(''keyup'', ''colorpicker''), (''change'', ''colorpicker'')]\<rparr>]"
    by (simp add: sample_handler_eq bind_def jq_on_def sample_field_def)
  have "setValue (bind sample_handler) (JStr ''#00ff00'') =
      after_change_deliveries
        (length (change_subscriptions
           [sample_field\<lparr>value_prop := ''#123456'',
              listeners := [(''keyup'', ''colorpicker''), (''change'', ''colorpicker'')]\<rparr>]))
        (ChangeEvent (color (colorpicker (bind sample_handler))) (normalized (JStr ''#00ff00'')))
        ((bind sample_handler)
          \<lparr>input := Some (jq_set_value
              (toDOMString (colorpicker (bind sample_handler)) (normalized (JStr ''#00ff00'')))
              [sample_field\<lparr>value_prop := ''#123456'',
                 listeners := [(''keyup'', ''colorpicker''), (''change'', ''colorpicker'')]\<rparr>]),
           trace := trace (bind sample_handler) @
             [PropValue (toDOMString (colorpicker (bind sample_handler))
                (normalized (JStr ''#00ff00''))),
              Trigger (color (colorpicker (bind sample_handler)))
                (normalized (JStr ''#00ff00''))]\<rparr>)"
    using c n3 h2 ib by blast
  then have p7: "trace (setValue (bind sample_handler) (JStr ''#00ff00'')) =
       [PropValue ''#123456'', On ''keyup'' ''colorpicker'', On ''change'' ''colorpicker'',
        PropValue ''#00ff00'', Trigger (JColor 0) (JStr ''#00ff00''),
        WidgetSetValue (JStr ''#00ff00'')]"
    and p8: "lastEvent (colorpicker (setValue (bind sample_handler) (JStr ''#00ff00''))) =
       \<lparr>lastEvent_alias = Some ''input.change'',
        lastEvent_e = Some (ChangeEvent (JColor 0) (JStr ''#00ff00''))\<rparr>"
    by (simp_all add: after_change_deliveries_def change_subscriptions_def normalized_def
        toDOMString_def sample_handler_eq bind_def sample_widget_def getValue_def jq_defs
        getFormattedColor_def sample_resolve_def sample_field_def strip_line_breaks_def)
  from n1 n2 n3 h1 h2 f w0 p1 p2 p3 p4 p5 p6 p7 p8 show ?thesis by blast
qed

text \<open>
  C2 as stated fails three times. When the field already holds \<open>v\<close>, the first of two
  calls makes no write and triggers no event, where the claim promises exactly one of
  each. For a truthy value that is not a string, here \<^verbatim>\<open>true\<close>, the field stores the
  string \<^verbatim>\<open>"true"\<close>, which is not strictly equal to \<^verbatim>\<open>true\<close>, so the second call writes
  and triggers again. And for a string that the control does not store as assigned, here
  two letters with a line feed between them on a text input, the field reads back another
  string, so the second call writes and triggers again.
\<close>

theorem setValue_twice_counterexample:
  "trace (setValue sample_handler (JStr ''#123456'')) = trace sample_handler
   \<and> trace (setValue (setValue sample_handler (JBool True)) (JBool True)) =
       trace (setValue sample_handler (JBool True))
         @ [PropValue ''true'', Trigger (JColor 0) (JBool True)]
   \<and> trace (setValue (setValue sample_handler (JStr two_lines)) (JStr two_lines)) =
       trace (setValue sample_handler (JStr two_lines))
         @ [PropValue two_lines, Trigger (JColor 0) (JStr two_lines)]"
  by (simp add: sample_handler_eq setValue_def Let_def jq_defs toDOMString_def sample_widget_def
      jq_trigger_change_def change_subscriptions_def sample_field_def strip_line_breaks_def
      two_lines_def)

text \<open>
  C3, as amended. On a handler with a Bound Field, \<^verbatim>\<open>update()\<close> changes nothing when the
  suppression condition holds, and is \<^verbatim>\<open>setValue(getFormattedColor())\<close> when it does not,
  where the condition is: the \<^verbatim>\<open>autoInputFallback\<close> option is not \<^verbatim>\<open>true\<close>, and the widget
  holds an invalid color or the alias of the Last Interaction Record is
  \<^verbatim>\<open>"input.keyup"\<close>. So \<^verbatim>\<open>update()\<close> writes the formatted color into the field exactly when
  the condition does not hold and the field's normalized current value differs from the
  formatted color: then there is one write of the \<^verbatim>\<open>value\<close> property and one \<^verbatim>\<open>change\<close>
  event, delivered to the \<^verbatim>\<open>onchange\<close> subscriptions made by \<^verbatim>\<open>bind\<close>; when the field is
  already current nothing is written.
\<close>

theorem update_writes_unless_suppressed:
  assumes "input h = Some els"
  shows "(suppressed (colorpicker h) \<longrightarrow> update h = h)
     \<and> (\<not> suppressed (colorpicker h) \<longrightarrow>
          update h = setValue h (JStr (getFormattedColor h JUndefined)))
     \<and> (\<not> suppressed (colorpicker h)
          \<and> normalized (jq_prop_value els) = JStr (getFormattedColor h JUndefined) \<longrightarrow>
          update h = h)
     \<and> (\<not> suppressed (colorpicker h)
          \<and> normalized (jq_prop_value els) \<noteq> JStr (getFormattedColor h JUndefined) \<longrightarrow>
          update h =
            after_change_deliveries (length (change_subscriptions els))
              (ChangeEvent (color (colorpicker h)) (JStr (getFormattedColor h JUndefined)))
              (h\<lparr>input := Some (jq_set_value (getFormattedColor h JUndefined) els),
                 trace := trace h @ [PropValue (getFormattedColor h JUndefined),
                                     Trigger (color (colorpicker h))
                                       (JStr (getFormattedColor h JUndefined))]\<rparr>)
          \<and> input (update h) = Some (jq_set_value (getFormattedColor h JUndefined) els))
     \<and> value_writes (trace (update h)) =
         value_writes (trace h)
           + (if \<not> suppressed (colorpicker h)
                 \<and> normalized (jq_prop_value els) \<noteq> JStr (getFormattedColor h JUndefined)
              then 1 else 0)
     \<and> change_events (trace (update h)) =
         change_events (trace h)
           + (if \<not> suppressed (colorpicker h)
                 \<and> normalized (jq_prop_value els) \<noteq> JStr (getFormattedColor h JUndefined)
              then 1 else 0)"
proof -
  let ?f = "getFormattedColor h JUndefined"
  let ?h1 = "h\<lparr>input := Some (jq_set_value ?f els),
      trace := trace h @ [PropValue ?f, Trigger (color (colorpicker h)) (JStr ?f)]\<rparr>"
  let ?n = "length (change_subscriptions els)"
  have s: "suppressed (colorpicker h) \<Longrightarrow> update h = h"
    using assms by (simp add: update_def suppressed_def)
  have u: "\<not> suppressed (colorpicker h) \<Longrightarrow> update h = setValue h (JStr ?f)"
    using assms by (auto simp: update_def suppressed_def)
  have dom: "toDOMString (colorpicker h) (JStr ?f) = ?f"
    by (simp add: toDOMString_def)
  have cur: "normalized (jq_prop_value els) = JStr ?f \<Longrightarrow> setValue h (JStr ?f) = h"
    using assms by (simp add: setValue_Some normalized_JStr)
  have wr: "normalized (jq_prop_value els) \<noteq> JStr ?f \<Longrightarrow>
      setValue h (JStr ?f) =
        after_change_deliveries ?n (ChangeEvent (color (colorpicker h)) (JStr ?f)) ?h1"
    using assms by (auto simp: setValue_Some normalized_JStr dom)
  have w1: "value_writes (trace
      (after_change_deliveries ?n (ChangeEvent (color (colorpicker h)) (JStr ?f)) ?h1))
      = value_writes (trace h) + 1"
    unfolding value_writes_after_change_deliveries by (simp add: value_writes_def)
  have c1: "change_events (trace
      (after_change_deliveries ?n (ChangeEvent (color (colorpicker h)) (JStr ?f)) ?h1))
      = change_events (trace h) + 1"
    unfolding change_events_after_change_deliveries by (simp add: change_events_def)
  show ?thesis
  proof (cases "suppressed (colorpicker h)")
    case True
    then show ?thesis using s by simp
  next
    case ns: False
    show ?thesis
    proof (cases "normalized (jq_prop_value els) = JStr ?f")
      case True
      then show ?thesis using ns u cur by simp
    next
      case False
      then show ?thesis
        using ns u [OF ns] wr [OF False] w1 c1
        by (simp add: after_change_deliveries_input)
    qed
  qed
qed

theorem update_writes_unless_suppressed_witness:
  "input sample_handler = Some [sample_field\<lparr>value_prop := ''#123456''\<rparr>]
   \<and> \<not> suppressed (colorpicker sample_handler)
   \<and> normalized (jq_prop_value [sample_field\<lparr>value_prop := ''#123456''\<rparr>])
       \<noteq> JStr (getFormattedColor sample_handler JUndefined)
   \<and> getFormattedColor sample_handler JUndefined = ''#0000ff''
   \<and> value_writes (trace (update sample_handler)) = value_writes (trace sample_handler) + 1
   \<and> getValue (update sample_handler) = JStr ''#0000ff''
   \<and> suppressed (colorpicker (onkeyup sample_handler (DomEvent 1)))
   \<and> update (onkeyup sample_handler (DomEvent 1)) = onkeyup sample_handler (DomEvent 1)
   \<and> input sample_handler_current = Some [sample_field\<lparr>value_prop := ''#0000ff''\<rparr>]
   \<and> \<not> suppressed (colorpicker sample_handler_current)
   \<and> update sample_handler_current = sample_handler_current"
proof -
  let ?els = "[sample_field\<lparr>value_prop := ''#123456''\<rparr>]"
  let ?cur = "[sample_field\<lparr>value_prop := ''#0000ff''\<rparr>]"
  have i: "input sample_handler = Some ?els"
    by (simp add: sample_handler_eq)
  have j: "input (onkeyup sample_handler (DomEvent 1)) = Some ?els"
    by (simp add: sample_handler_eq onkeyup_def record_event_def Let_def)
  have k: "input sample_handler_current = Some ?cur"
    by (simp add: sample_handler_current_eq)
  have ns: "\<not> suppressed (colorpicker sample_handler)"
    by (simp add: sample_handler_eq suppressed_def sample_widget_def)
  have s: "suppressed (colorpicker (onkeyup sample_handler (DomEvent 1)))"
    by (simp add: sample_handler_eq suppressed_def sample_widget_def onkeyup_def
        record_event_def Let_def)
  have nc: "\<not> suppressed (colorpicker sample_handler_current)"
    by (simp add: sample_handler_current_eq sample_widget_current_def suppressed_def
        sample_widget_def)
  have f: "getFormattedColor sample_handler JUndefined = ''#0000ff''"
    by (simp add: sample_handler_eq getFormattedColor_def sample_widget_def sample_resolve_def)
  have fc: "getFormattedColor sample_handler_current JUndefined = ''#0000ff''"
    by (simp add: sample_handler_current_eq sample_widget_current_def getFormattedColor_def
        sample_widget_def sample_resolve_def)
  have d: "normalized (jq_prop_value ?els) \<noteq> JStr (getFormattedColor sample_handler JUndefined)"
    by (simp add: f normalized_def jq_prop_value_def)
  have e: "normalized (jq_prop_value ?cur)
      = JStr (getFormattedColor sample_handler_current JUndefined)"
    by (simp add: fc normalized_def jq_prop_value_def)
  note a = update_writes_unless_suppressed [OF i]
  note b = update_writes_unless_suppressed [OF j]
  note c = update_writes_unless_suppressed [OF k]
  have p1: "value_writes (trace (update sample_handler))
      = value_writes (trace sample_handler) + 1"
    using a [THEN conjunct2, THEN conjunct2, THEN conjunct2, THEN conjunct2, THEN conjunct1]
      ns d
    by simp
  have "input (update sample_handler)
      = Some (jq_set_value (getFormattedColor sample_handler JUndefined) ?els)"
    using a [THEN conjunct2, THEN conjunct2, THEN conjunct2, THEN conjunct1] ns d
    by blast
  then have p2: "getValue (update sample_handler) = JStr ''#0000ff''"
    by (simp add: f getValue_def jq_val_def jq_set_value_def sample_field_def
        strip_line_breaks_def)
  have p3: "update (onkeyup sample_handler (DomEvent 1)) = onkeyup sample_handler (DomEvent 1)"
    using b s by blast
  have p4: "update sample_handler_current = sample_handler_current"
    using c nc e by blast
  from i ns d f p1 p2 s p3 k nc p4 show ?thesis by blast
qed

text \<open>
  C3 as stated fails: on a handler whose field already shows the formatted color the
  suppression condition does not hold, and \<^verbatim>\<open>update()\<close> writes nothing.
\<close>

theorem update_without_write_counterexample:
  "hasInput sample_handler_current
   \<and> \<not> suppressed (colorpicker sample_handler_current)
   \<and> getValue sample_handler_current = JStr (getFormattedColor sample_handler_current JUndefined)
   \<and> update sample_handler_current = sample_handler_current
   \<and> value_writes (trace (update sample_handler_current))
       = value_writes (trace sample_handler_current)"
proof -
  have a: "hasInput sample_handler_current"
    by (simp add: sample_handler_current_eq hasInput_def)
  have b: "\<not> suppressed (colorpicker sample_handler_current)"
    by (simp add: sample_handler_current_eq sample_widget_current_def suppressed_def
        sample_widget_def)
  have f: "getFormattedColor sample_handler_current JUndefined = ''#0000ff''"
    by (simp add: sample_handler_current_eq sample_widget_current_def getFormattedColor_def
        sample_widget_def sample_resolve_def)
  have c: "getValue sample_handler_current = JStr ''#0000ff''"
    by (simp add: sample_handler_current_eq getValue_def jq_val_def)
  have k: "input sample_handler_current = Some [sample_field\<lparr>value_prop := ''#0000ff''\<rparr>]"
    by (simp add: sample_handler_current_eq)
  have u: "update sample_handler_current = setValue sample_handler_current (JStr ''#0000ff'')"
    using b k by (auto simp: update_def suppressed_def f)
  have "setValue sample_handler_current (JStr ''#0000ff'') = sample_handler_current"
    by (simp add: setValue_Some [OF k] normalized_def jq_prop_value_def)
  with u have d: "update sample_handler_current = sample_handler_current"
    by simp
  show ?thesis using a b c d f by simp
qed

text \<open>
  C4, as amended. When \<^verbatim>\<open>useHashPrefix\<close> is \<^verbatim>\<open>false\<close>, \<^verbatim>\<open>getFormattedColor\<close> removes one
  leading \<^verbatim>\<open>#\<close> from the resolved color string, and only one: a resolved string that
  starts with \<^verbatim>\<open>#\<close> loses that character, any other resolved string is returned as
  it is. For a resolved string of \<open>n\<close> leading \<^verbatim>\<open>#\<close> characters followed by a suffix
  that does not start with \<^verbatim>\<open>#\<close>, the result has \<open>n - 1\<close> leading \<^verbatim>\<open>#\<close> characters
  followed by the suffix; it is the bare suffix when \<open>n \<le> 1\<close>.
\<close>

theorem getFormattedColor_strips_one_hash:
  assumes "options_useHashPrefix (colorpicker h) = JBool False"
    and "truthy (color_source h v)"
    and "r = resolveColor (colorpicker h) (color_source h v)"
  shows "(\<forall>rest. r = CHR ''#'' # rest \<longrightarrow> getFormattedColor h v = rest)
     \<and> ((r = [] \<or> hd r \<noteq> CHR ''#'') \<longrightarrow> getFormattedColor h v = r)
     \<and> (\<forall>n suffix. r = replicate n (CHR ''#'') @ suffix \<and> (suffix = [] \<or> hd suffix \<noteq> CHR ''#'')
          \<longrightarrow> getFormattedColor h v = replicate (n - 1) (CHR ''#'') @ suffix)"
proof -
  have g: "getFormattedColor h v = replace_leading_hash r"
    using assms
    by (cases "v = JUndefined") (simp_all add: getFormattedColor_def color_source_def Let_def)
  have p1: "\<forall>rest. r = CHR ''#'' # rest \<longrightarrow> getFormattedColor h v = rest"
    by (simp add: g replace_leading_hash_Cons)
  have p2: "(r = [] \<or> hd r \<noteq> CHR ''#'') \<longrightarrow> getFormattedColor h v = r"
    by (cases r) (simp_all add: g replace_leading_hash_Nil replace_leading_hash_Cons)
  have p3: "\<forall>n suffix. r = replicate n (CHR ''#'') @ suffix \<and> (suffix = [] \<or> hd suffix \<noteq> CHR ''#'')
          \<longrightarrow> getFormattedColor h v = replicate (n - 1) (CHR ''#'') @ suffix"
  proof (intro allI impI)
    fix n suffix
    assume a: "r = replicate n (CHR ''#'') @ suffix \<and> (suffix = [] \<or> hd suffix \<noteq> CHR ''#'')"
    show "getFormattedColor h v = replicate (n - 1) (CHR ''#'') @ suffix"
    proof (cases n)
      case 0
      with a show ?thesis
        by (cases suffix) (auto simp: g replace_leading_hash_Nil replace_leading_hash_Cons)
    next
      case (Suc m)
      with a show ?thesis by (simp add: g replace_leading_hash_Cons)
    qed
  qed
  from p1 p2 p3 show ?thesis by blast
qed

theorem getFormattedColor_strips_one_hash_witness:
  "options_useHashPrefix (colorpicker sample_handler_no_hash) = JBool False
   \<and> truthy (color_source sample_handler_no_hash (JStr ''#ff0000''))
   \<and> resolveColor (colorpicker sample_handler_no_hash)
        (color_source sample_handler_no_hash (JStr ''#ff0000'')) = ''#ff0000''
   \<and> getFormattedColor sample_handler_no_hash (JStr ''#ff0000'') = ''ff0000''
   \<and> truthy (color_source sample_handler_no_hash JUndefined)
   \<and> getFormattedColor sample_handler_no_hash JUndefined = ''0000ff''"
proof -
  have c: "colorpicker sample_handler_no_hash = sample_widget_no_hash"
    by (simp add: sample_handler_no_hash_def new_InputHandler_def initValue_def Let_def
        split: option.splits)
  have o: "options_useHashPrefix (colorpicker sample_handler_no_hash) = JBool False"
    by (simp add: c sample_widget_no_hash_def)
  have t: "truthy (color_source sample_handler_no_hash (JStr ''#ff0000''))"
    by (simp add: color_source_def)
  have r: "''#ff0000'' = resolveColor (colorpicker sample_handler_no_hash)
      (color_source sample_handler_no_hash (JStr ''#ff0000''))"
    by (simp add: c color_source_def sample_widget_no_hash_def sample_widget_def sample_resolve_def)
  have t': "truthy (color_source sample_handler_no_hash JUndefined)"
    by (simp add: c color_source_def sample_widget_no_hash_def sample_widget_def)
  have r': "''#0000ff'' = resolveColor (colorpicker sample_handler_no_hash)
      (color_source sample_handler_no_hash JUndefined)"
    by (simp add: c color_source_def sample_widget_no_hash_def sample_widget_def sample_resolve_def)
  show ?thesis
    using getFormattedColor_strips_one_hash [OF o t r] getFormattedColor_strips_one_hash [OF o t' r']
      o t t' r [symmetric]
    by simp
qed

text \<open>
  C4 as stated fails: with \<^verbatim>\<open>useHashPrefix = false\<close> and the resolved string
  \<^verbatim>\<open>"##ff0000"\<close> (two leading \<^verbatim>\<open>#\<close>, then a suffix without \<^verbatim>\<open>#\<close>) the result is
  \<^verbatim>\<open>"#ff0000"\<close>, not the bare suffix.
\<close>

theorem strip_every_hash_counterexample:
  "options_useHashPrefix (colorpicker sample_handler_no_hash) = JBool False
   \<and> resolveColor (colorpicker sample_handler_no_hash) (JStr ''##ff0000'')
       = replicate 2 (CHR ''#'') @ ''ff0000''
   \<and> getFormattedColor sample_handler_no_hash (JStr ''##ff0000'') = ''#ff0000''
   \<and> getFormattedColor sample_handler_no_hash (JStr ''##ff0000'') \<noteq> ''ff0000''"
proof -
  have c: "colorpicker sample_handler_no_hash = sample_widget_no_hash"
    by (simp add: sample_handler_no_hash_def new_InputHandler_def initValue_def Let_def
        split: option.splits)
  have r: "replicate 2 (CHR ''#'') @ ''ff0000'' = ''##ff0000''"
    by (simp add: numeral_2_eq_2)
  show ?thesis
    by (simp add: c r getFormattedColor_def Let_def sample_widget_no_hash_def sample_widget_def
        sample_resolve_def replace_leading_hash_Cons)
qed



text \<open>
  C6. When the constructor resolves a Bound Field, the seed is taken from the first
  truthy candidate among the field's value, \<^verbatim>\<open>data('color')\<close> and
  \<^verbatim>\<open>attr('data-color')\<close>, in this order: a \<^verbatim>\<open>Color\<close> instance is rendered with
  \<^verbatim>\<open>toString(format)\<close> and passed through \<^verbatim>\<open>getFormattedColor\<close>, a string is kept, any
  other value (or no truthy candidate at all) gives the empty string; the seed is written
  into the field, which then reads back what its control stores of it.
\<close>

theorem constructor_seeds_field:
  assumes "resolve_input cp = Some els"
  shows "new_InputHandler cp =
       \<lparr>colorpicker = cp,
        input = Some (jq_set_value
                  (seed_of \<lparr>colorpicker = cp, input = Some els, trace = []\<rparr>
                     [jq_val els, jq_data_color els, jq_attr_data_color els]) els),
        trace = [PropValue
                  (seed_of \<lparr>colorpicker = cp, input = Some els, trace = []\<rparr>
                     [jq_val els, jq_data_color els, jq_attr_data_color els])]\<rparr>
     \<and> (\<forall>x xs. els = x # xs \<longrightarrow>
          getValue (new_InputHandler cp) =
            JStr (value_sanitization x
                   (seed_of \<lparr>colorpicker = cp, input = Some els, trace = []\<rparr>
                      [jq_val els, jq_data_color els, jq_attr_data_color els])))"
proof -
  let ?h0 = "\<lparr>colorpicker = cp, input = Some els, trace = []\<rparr>"
  let ?seed = "seed_of ?h0 [jq_val els, jq_data_color els, jq_attr_data_color els]"
  have i: "input ?h0 = Some els" by simp
  have n: "new_InputHandler cp = \<lparr>colorpicker = cp, input = Some (jq_set_value ?seed els),
      trace = [PropValue ?seed]\<rparr>"
    using assms by (simp add: new_InputHandler_def initValue_Some [OF i])
  have "\<forall>x xs. els = x # xs \<longrightarrow>
      getValue \<lparr>colorpicker = cp, input = Some (jq_set_value ?seed els),
        trace = [PropValue ?seed]\<rparr> = JStr (value_sanitization x ?seed)"
    by (simp add: getValue_def jq_val_def jq_set_value_def)
  with n show ?thesis by simp
qed

theorem constructor_seeds_field_witness:
  "resolve_input (sample_widget\<lparr>element := [sample_field\<lparr>data_color := JNum 0\<rparr>]\<rparr>)
     = Some [sample_field\<lparr>data_color := JNum 0\<rparr>]
   \<and> getValue (new_InputHandler (sample_widget\<lparr>element := [sample_field\<lparr>data_color := JNum 0\<rparr>]\<rparr>))
     = JStr ''#123456''
   \<and> resolve_input (sample_widget\<lparr>element := [sample_field\<lparr>data_color := JColor 5\<rparr>]\<rparr>)
     = Some [sample_field\<lparr>data_color := JColor 5\<rparr>]
   \<and> getValue (new_InputHandler (sample_widget\<lparr>element := [sample_field\<lparr>data_color := JColor 5\<rparr>]\<rparr>))
     = JStr ''#0000ff''
   \<and> resolve_input (sample_widget\<lparr>element := [sample_field\<lparr>data_color := JBool True\<rparr>]\<rparr>)
     = Some [sample_field\<lparr>data_color := JBool True\<rparr>]
   \<and> getValue (new_InputHandler (sample_widget\<lparr>element := [sample_field\<lparr>data_color := JBool True\<rparr>]\<rparr>))
     = JStr ''''"
proof -
  have r: "\<And>d. resolve_input (sample_widget\<lparr>element := [sample_field\<lparr>data_color := d\<rparr>]\<rparr>)
     = Some [sample_field\<lparr>data_color := d\<rparr>]"
    by (simp add: resolve_input_def sample_widget_def sample_field_def jq_is_input_def)
  have s0: "seed_of \<lparr>colorpicker = sample_widget\<lparr>element := [sample_field\<lparr>data_color := JNum 0\<rparr>]\<rparr>,
                input = Some [sample_field\<lparr>data_color := JNum 0\<rparr>], trace = []\<rparr>
              [jq_val [sample_field\<lparr>data_color := JNum 0\<rparr>],
               jq_data_color [sample_field\<lparr>data_color := JNum 0\<rparr>],
               jq_attr_data_color [sample_field\<lparr>data_color := JNum 0\<rparr>]] = ''#123456''"
    by (simp add: seed_of_def jq_defs sample_field_def)
  have s1: "seed_of \<lparr>colorpicker = sample_widget\<lparr>element := [sample_field\<lparr>data_color := JColor 5\<rparr>]\<rparr>,
                input = Some [sample_field\<lparr>data_color := JColor 5\<rparr>], trace = []\<rparr>
              [jq_val [sample_field\<lparr>data_color := JColor 5\<rparr>],
               jq_data_color [sample_field\<lparr>data_color := JColor 5\<rparr>],
               jq_attr_data_color [sample_field\<lparr>data_color := JColor 5\<rparr>]] = ''#0000ff''"
    by (simp add: seed_of_def jq_defs sample_field_def getFormattedColor_def sample_widget_def
        sample_resolve_def)
  have s2: "seed_of \<lparr>colorpicker = sample_widget\<lparr>element := [sample_field\<lparr>data_color := JBool True\<rparr>]\<rparr>,
                input = Some [sample_field\<lparr>data_color := JBool True\<rparr>], trace = []\<rparr>
              [jq_val [sample_field\<lparr>data_color := JBool True\<rparr>],
               jq_data_color [sample_field\<lparr>data_color := JBool True\<rparr>],
               jq_attr_data_color [sample_field\<lparr>data_color := JBool True\<rparr>]] = ''''"
    by (simp add: seed_of_def jq_defs sample_field_def)
  have k: "value_sanitization sample_field ''#123456'' = ''#123456''"
    "value_sanitization sample_field ''#0000ff'' = ''#0000ff''"
    "value_sanitization sample_field '''' = ''''"
    by (simp_all add: sample_field_def strip_line_breaks_def)
  have w0: "getValue (new_InputHandler
      (sample_widget\<lparr>element := [sample_field\<lparr>data_color := JNum 0\<rparr>]\<rparr>)) = JStr ''#123456''"
    using constructor_seeds_field [OF r [of "JNum 0"], unfolded s0, THEN conjunct2]
    by (simp add: k)
  have w1: "getValue (new_InputHandler
      (sample_widget\<lparr>element := [sample_field\<lparr>data_color := JColor 5\<rparr>]\<rparr>)) = JStr ''#0000ff''"
    using constructor_seeds_field [OF r [of "JColor 5"], unfolded s1, THEN conjunct2]
    by (simp add: k)
  have w2: "getValue (new_InputHandler
      (sample_widget\<lparr>element := [sample_field\<lparr>data_color := JBool True\<rparr>]\<rparr>)) = JStr ''''"
    using constructor_seeds_field [OF r [of "JBool True"], unfolded s2, THEN conjunct2]
    by (simp add: k)
  from r w0 w1 w2 show ?thesis by blast
qed

text \<open>
  C7. \<^verbatim>\<open>getValue()\<close> returns the raw text of the Bound Field (of the first element of the
  bound set) when a field exists, and the boolean \<^verbatim>\<open>false\<close> when there is none. A field's
  text is a string, so the result is \<^verbatim>\<open>false\<close> exactly when there is no field, also when
  the field is empty.
\<close>

theorem getValue_field_text_or_false:
  "(input h = None \<longrightarrow> getValue h = JBool False)
   \<and> (\<forall>x xs. input h = Some (x # xs) \<longrightarrow> getValue h = JStr (value_prop x))
   \<and> (input h \<noteq> Some [] \<longrightarrow> (getValue h = JBool False \<longleftrightarrow> \<not> hasInput h))"
proof -
  have a: "input h = None \<longrightarrow> getValue h = JBool False"
    by (simp add: getValue_def)
  have b: "\<forall>x xs. input h = Some (x # xs) \<longrightarrow> getValue h = JStr (value_prop x)"
    by (simp add: getValue_def jq_val_def)
  have c: "input h \<noteq> Some [] \<longrightarrow> (getValue h = JBool False \<longleftrightarrow> \<not> hasInput h)"
  proof (cases "input h")
    case None
    then show ?thesis by (simp add: getValue_def hasInput_def)
  next
    case (Some els)
    then show ?thesis by (cases els) (simp_all add: getValue_def hasInput_def jq_val_def)
  qed
  from a b c show ?thesis by blast
qed

theorem getValue_field_text_or_false_witness:
  "input sample_handler_no_field = None
   \<and> getValue sample_handler_no_field = JBool False
   \<and> input (setValue sample_handler JNull) = Some [sample_field]
   \<and> getValue (setValue sample_handler JNull) = JStr ''''
   \<and> hasInput (setValue sample_handler JNull)"
proof -
  have a: "input sample_handler_no_field = None"
    by (simp add: sample_handler_no_field_eq)
  have b: "input (setValue sample_handler JNull) = Some [sample_field]"
    by (simp add: sample_handler_eq setValue_def Let_def jq_defs toDOMString_def sample_field_def
        jq_trigger_change_def change_subscriptions_def strip_line_breaks_def)
  have c: "value_prop sample_field = ''''"
    by (simp add: sample_field_def)
  show ?thesis
    using getValue_field_text_or_false [of sample_handler_no_field]
      getValue_field_text_or_false [of "setValue sample_handler JNull"]
    by (simp add: a b c hasInput_def)
qed

text \<open>
  C8. Without a Bound Field \<^verbatim>\<open>disable()\<close> and \<^verbatim>\<open>enable()\<close> change nothing. With one,
  \<^verbatim>\<open>disable()\<close> sets and \<^verbatim>\<open>enable()\<close> clears the \<^verbatim>\<open>disabled\<close> property of the bound
  elements and nothing else: every other property of the elements, the widget and its Last
  Interaction Record stay as they are, and the only outward call is that property write,
  so no event is triggered. \<^verbatim>\<open>isDisabled()\<close> is true exactly when a field exists and its
  \<^verbatim>\<open>disabled\<close> property is \<^verbatim>\<open>true\<close>.
\<close>

theorem disable_enable_touch_only_the_flag:
  "(\<not> hasInput h \<longrightarrow> disable h = h \<and> enable h = h)
   \<and> (\<forall>els. input h = Some els \<longrightarrow>
         disable h = h\<lparr>input := Some (map (\<lambda>x. x\<lparr>disabled := True\<rparr>) els),
                       trace := trace h @ [PropDisabled True]\<rparr>
         \<and> enable h = h\<lparr>input := Some (map (\<lambda>x. x\<lparr>disabled := False\<rparr>) els),
                        trace := trace h @ [PropDisabled False]\<rparr>)
   \<and> (isDisabled h \<longleftrightarrow> (\<exists>x xs. input h = Some (x # xs) \<and> disabled x))"
proof -
  have a: "\<not> hasInput h \<longrightarrow> disable h = h \<and> enable h = h"
    by (simp add: hasInput_def disable_def enable_def)
  have b: "\<forall>els. input h = Some els \<longrightarrow>
         disable h = h\<lparr>input := Some (map (\<lambda>x. x\<lparr>disabled := True\<rparr>) els),
                       trace := trace h @ [PropDisabled True]\<rparr>
         \<and> enable h = h\<lparr>input := Some (map (\<lambda>x. x\<lparr>disabled := False\<rparr>) els),
                        trace := trace h @ [PropDisabled False]\<rparr>"
    by (simp add: disable_def enable_def jq_set_disabled_def)
  have c: "isDisabled h \<longleftrightarrow> (\<exists>x xs. input h = Some (x # xs) \<and> disabled x)"
  proof (cases "input h")
    case None
    then show ?thesis by (simp add: isDisabled_def)
  next
    case (Some els)
    then show ?thesis by (cases els) (simp_all add: isDisabled_def jq_prop_disabled_def)
  qed
  from a b c show ?thesis by blast
qed

theorem disable_enable_touch_only_the_flag_witness:
  "\<not> hasInput sample_handler_no_field
   \<and> disable sample_handler_no_field = sample_handler_no_field
   \<and> input sample_handler = Some [sample_field\<lparr>value_prop := ''#123456''\<rparr>]
   \<and> \<not> isDisabled sample_handler
   \<and> trace (disable sample_handler) = trace sample_handler @ [PropDisabled True]
   \<and> isDisabled (disable sample_handler)"
proof -
  have a: "\<not> hasInput sample_handler_no_field"
    by (simp add: sample_handler_no_field_eq hasInput_def)
  have b: "input sample_handler = Some [sample_field\<lparr>value_prop := ''#123456''\<rparr>]"
    by (simp add: sample_handler_eq)
  have c: "input (disable sample_handler) =
      Some [sample_field\<lparr>value_prop := ''#123456'', disabled := True\<rparr>]"
    by (simp add: sample_handler_eq disable_def jq_set_disabled_def)
  have d: "\<not> disabled sample_field" by (simp add: sample_field_def)
  have p1: "disable sample_handler_no_field = sample_handler_no_field"
    using disable_enable_touch_only_the_flag [of sample_handler_no_field] a by blast
  have "disable sample_handler =
      sample_handler\<lparr>input := Some (map (\<lambda>x. x\<lparr>disabled := True\<rparr>)
                                      [sample_field\<lparr>value_prop := ''#123456''\<rparr>]),
                     trace := trace sample_handler @ [PropDisabled True]\<rparr>"
    using disable_enable_touch_only_the_flag [of sample_handler] b by blast
  then have p2: "trace (disable sample_handler) = trace sample_handler @ [PropDisabled True]"
    by simp
  have p3: "\<not> isDisabled sample_handler"
    using disable_enable_touch_only_the_flag [of sample_handler, THEN conjunct2, THEN conjunct2]
    by (simp add: b d)
  have p4: "isDisabled (disable sample_handler)"
    using disable_enable_touch_only_the_flag
      [of "disable sample_handler", THEN conjunct2, THEN conjunct2]
    by (simp add: c)
  from a b p1 p2 p3 p4 show ?thesis by blast
qed

text \<open>
  C9. When the widget's element is not an input and the configured selector
  \<^verbatim>\<open>options.input\<close> matches no element, the constructed handler has no Bound Field:
  \<^verbatim>\<open>hasInput()\<close> is false, nothing is written, and \<^verbatim>\<open>this.input\<close> is what it is for the
  same widget with no selector configured.
\<close>

theorem empty_selector_match_gives_no_field:
  assumes "\<not> jq_is_input (element cp)"
    and "truthy (options_input cp)"
    and "element_find cp (options_input cp) = []"
  shows "\<not> hasInput (new_InputHandler cp)
     \<and> new_InputHandler cp = \<lparr>colorpicker = cp, input = None, trace = []\<rparr>
     \<and> input (new_InputHandler cp) = input (new_InputHandler (cp\<lparr>options_input := JUndefined\<rparr>))"
proof -
  have a: "resolve_input cp = None"
    using assms by (simp add: resolve_input_def)
  have b: "resolve_input (cp\<lparr>options_input := JUndefined\<rparr>) = None"
    using assms(1) by (simp add: resolve_input_def)
  show ?thesis
    by (simp add: new_InputHandler_no_field [OF a] new_InputHandler_no_field [OF b] hasInput_def)
qed

theorem empty_selector_match_gives_no_field_witness:
  "\<not> jq_is_input (element sample_widget_no_field)
   \<and> truthy (options_input sample_widget_no_field)
   \<and> element_find sample_widget_no_field (options_input sample_widget_no_field) = []
   \<and> \<not> hasInput (new_InputHandler sample_widget_no_field)"
proof -
  have a: "\<not> jq_is_input (element sample_widget_no_field)"
    by (simp add: sample_widget_no_field_def sample_widget_def sample_field_def jq_is_input_def)
  have b: "truthy (options_input sample_widget_no_field)"
    by (simp add: sample_widget_no_field_def)
  have c: "element_find sample_widget_no_field (options_input sample_widget_no_field) = []"
    by (simp add: sample_widget_no_field_def sample_widget_def)
  show ?thesis
    using empty_selector_match_gives_no_field [OF a b c, THEN conjunct1] a b c by blast
qed

text \<open>
  C10. \<^verbatim>\<open>getFormattedColor\<close> applies the hash-prefix replacement exactly when the
  \<^verbatim>\<open>useHashPrefix\<close> option is the boolean \<^verbatim>\<open>false\<close>. For every other value of the option
  (\<^verbatim>\<open>undefined\<close>, \<^verbatim>\<open>null\<close>, \<^verbatim>\<open>0\<close>, the empty string, \<^verbatim>\<open>true\<close>, any other value) the
  resolved string is returned as it is, with its \<^verbatim>\<open>#\<close>.
\<close>

theorem hash_prefix_kept_unless_false:
  assumes "truthy (color_source h v)"
  shows "(options_useHashPrefix (colorpicker h) \<noteq> JBool False \<longrightarrow>
            getFormattedColor h v = resolveColor (colorpicker h) (color_source h v))
     \<and> (options_useHashPrefix (colorpicker h) = JBool False \<longrightarrow>
            getFormattedColor h v =
              replace_leading_hash (resolveColor (colorpicker h) (color_source h v)))"
  using assms by (cases "v = JUndefined") (simp_all add: getFormattedColor_def color_source_def Let_def)

theorem hash_prefix_kept_unless_false_witness:
  "truthy (color_source (sample_handler_with_useHashPrefix (JNum 0)) JUndefined)
   \<and> getFormattedColor (sample_handler_with_useHashPrefix (JNum 0)) JUndefined = ''#0000ff''
   \<and> getFormattedColor (sample_handler_with_useHashPrefix JUndefined) JUndefined = ''#0000ff''
   \<and> getFormattedColor (sample_handler_with_useHashPrefix JNull) JUndefined = ''#0000ff''
   \<and> getFormattedColor (sample_handler_with_useHashPrefix (JStr '''')) JUndefined = ''#0000ff''
   \<and> getFormattedColor (sample_handler_with_useHashPrefix (JBool True)) JUndefined = ''#0000ff''
   \<and> getFormattedColor (sample_handler_with_useHashPrefix (JBool False)) JUndefined = ''0000ff''"
proof -
  have t: "\<And>opt. truthy (color_source (sample_handler_with_useHashPrefix opt) JUndefined)"
    by (simp add: sample_handler_with_useHashPrefix_def color_source_def sample_widget_def)
  have r: "\<And>opt. resolveColor (colorpicker (sample_handler_with_useHashPrefix opt)) (color_source (sample_handler_with_useHashPrefix opt) JUndefined)
      = ''#0000ff''"
    by (simp add: sample_handler_with_useHashPrefix_def color_source_def sample_widget_def sample_resolve_def)
  have o: "\<And>opt. options_useHashPrefix (colorpicker (sample_handler_with_useHashPrefix opt)) = opt"
    by (simp add: sample_handler_with_useHashPrefix_def)
  show ?thesis
    using hash_prefix_kept_unless_false [OF t [of "JNum 0"]]
      hash_prefix_kept_unless_false [OF t [of JUndefined]]
      hash_prefix_kept_unless_false [OF t [of JNull]]
      hash_prefix_kept_unless_false [OF t [of "JStr ''''"]]
      hash_prefix_kept_unless_false [OF t [of "JBool True"]]
      hash_prefix_kept_unless_false [OF t [of "JBool False"]]
    by (simp add: t r o replace_leading_hash_Cons)
qed

end
